theory Spec2Isabelle
  imports Main
begin

section \<open>Data model of TuringMachine.py\<close>

text \<open>
  The enumerations \<open>TMDirection\<close> and \<open>TMStateType\<close>, and the error values a call can
  end with. The module raises \<open>TMError\<close> with a message; \<open>IndexError\<close> and
  \<open>AttributeError\<close> are the interpreter's own exceptions for an index out of range and
  for an attribute read on \<open>None\<close>.
\<close>

datatype TMDirection = LEFT | RIGHT

datatype TMStateType = START | ACCEPTING | REJECTING | NORMAL

datatype error = TMError string | IndexError | AttributeError

text \<open>
  A call either returns a value or raises; in both cases the machine object keeps the
  mutations made so far, so every operation returns the outcome paired with the machine.
\<close>

datatype 'r outcome = Returned 'r | Raised error

text \<open>
  \<open>TMTransition\<close> and \<open>TMState\<close>. The symbol type is a parameter: the code only compares
  symbols with \<open>==\<close>. The back reference \<open>TMTransition.state\<close> to the owning state is never
  read by \<open>TM\<close> and is left out (it would make the two classes mutually cyclic).
\<close>

record 'a TMTransition =
  symbol :: 'a
  new_state :: string
  new_symbol :: 'a
  direction :: TMDirection

record 'a TMState =
  name :: string
  state_type :: TMStateType
  transitions :: "'a TMTransition list"

text \<open>\<open>TMState.add_transition\<close>: appends a transition and returns the state.\<close>

definition add_transition ::
  "'a TMState \<Rightarrow> 'a \<Rightarrow> string \<Rightarrow> 'a \<Rightarrow> TMDirection \<Rightarrow> 'a TMState" where
  "add_transition s a ns b d =
     s\<lparr>transitions := transitions s @
        [\<lparr>symbol = a, new_state = ns, new_symbol = b, direction = d\<rparr>]\<rparr>"

text \<open>
  The machine. \<open>head_pos\<close> is a Python integer, \<open>current_state\<close> is a reference that the
  \<open>run\<close> loop tests against \<open>None\<close>. Neither \<open>step\<close> nor \<open>run\<close> mutates a state object,
  so the reference is modelled by the state's value.
\<close>

record 'a TM =
  empty_symbol :: 'a
  tape :: "'a list"
  states :: "'a TMState list"
  implicit_reject :: bool
  head_pos :: int
  current_state :: "'a TMState option"
  accepting_states :: "'a TMState list"
  rejecting_states :: "'a TMState list"

subsection \<open>Messages of the raised TMError\<close>

definition msg_one_start :: string where
  "msg_one_start = ''There must be exactly one start state.''"

definition msg_a_start :: string where
  "msg_a_start = ''There must be a start state.''"

definition msg_accepting :: string where
  "msg_accepting = ''There must be at least one accepting state.''"

definition msg_rejecting :: string where
  "msg_rejecting = ''There must be at least one rejecting state.''"

definition msg_missing :: string where
  "msg_missing = ''Invalid: Cannot Perform Process Tape input due to missing transitions. Please ensure deterministic TMs are used.''"

definition msg_no_transition :: string where
  "msg_no_transition = ''Invalid: No possible transition was found. Please ensure deterministic TMs are used.''"

definition msg_nonexistent :: string where
  "msg_nonexistent = ''Invalid: Transition to a non-existent state. Please ensure deterministic TMs are used.''"

section \<open>Construction: TM.__init__\<close>

text \<open>
  The fields are assigned first, then the three checks run; a raise leaves no machine.
  The second test on \<open>start\<close> is kept as the source has it (it can never fire).
\<close>

definition TM_init ::
  "'a TMState list \<Rightarrow> 'a list \<Rightarrow> 'a \<Rightarrow> bool \<Rightarrow> error + 'a TM" where
  "TM_init sts tp es ir =
     (let start = filter (\<lambda>s. state_type s = START) sts in
      if length start \<noteq> 1 then Inl (TMError msg_one_start)
      else if length start = 0 then Inl (TMError msg_a_start)
      else
        let acc = filter (\<lambda>s. state_type s = ACCEPTING) sts;
            rej = filter (\<lambda>s. state_type s = REJECTING) sts
        in if length acc = 0 then Inl (TMError msg_accepting)
           else if \<not> ir \<and> length rej = 0 then Inl (TMError msg_rejecting)
           else Inr \<lparr>empty_symbol = es, tape = tp, states = sts, implicit_reject = ir,
                     head_pos = 0, current_state = Some (hd start),
                     accepting_states = acc, rejecting_states = rej\<rparr>)"

section \<open>A single transition: TM.step\<close>

text \<open>
  Python list indexing: a negative index counts from the end, anything outside the list
  raises \<open>IndexError\<close>. \<open>py_index\<close> gives the position that is accessed, if any.
\<close>

definition py_index :: "'b list \<Rightarrow> int \<Rightarrow> nat option" where
  "py_index xs i =
     (let n = int (length xs); j = (if i < 0 then n + i else i)
      in if 0 \<le> j \<and> j < n then Some (nat j) else None)"

definition py_getitem :: "'b list \<Rightarrow> int \<Rightarrow> 'b option" where
  "py_getitem xs i = (case py_index xs i of None \<Rightarrow> None | Some j \<Rightarrow> Some (xs ! j))"

text \<open>Line 162: the tape grows by one empty cell when the head is at or past its end.\<close>

definition extend_tape :: "'a TM \<Rightarrow> 'a TM" where
  "extend_tape m =
     (if int (length (tape m)) \<le> head_pos m
      then m\<lparr>tape := tape m @ [empty_symbol m]\<rparr> else m)"

text \<open>
  Line 164: the comprehension evaluates \<open>self.tape[self.head_pos]\<close> once per transition,
  so a state without transitions never reads the tape.
\<close>

definition select_transitions ::
  "'a TMTransition list \<Rightarrow> 'a list \<Rightarrow> int \<Rightarrow> error + 'a TMTransition list" where
  "select_transitions ts tp h =
     (if ts = [] then Inr []
      else case py_getitem tp h of
             None \<Rightarrow> Inl IndexError
           | Some x \<Rightarrow> Inr (filter (\<lambda>t. symbol t = x) ts))"

text \<open>Lines 176 to 183: the head movement, after the new state has been set.\<close>

definition move_head :: "'a TM \<Rightarrow> TMDirection \<Rightarrow> 'a TM" where
  "move_head m d =
     (if head_pos m = 0 \<and> d = LEFT then m\<lparr>tape := empty_symbol m # tape m\<rparr>
      else if d = LEFT then m\<lparr>head_pos := head_pos m - 1\<rparr>
      else m\<lparr>head_pos := head_pos m + 1\<rparr>)"

definition step :: "'a TM \<Rightarrow> unit outcome \<times> 'a TM" where
  "step m =
     (let m1 = extend_tape m in
      case current_state m1 of
        None \<Rightarrow> (Raised AttributeError, m1)
      | Some cs \<Rightarrow>
          (case select_transitions (transitions cs) (tape m1) (head_pos m1) of
             Inl e \<Rightarrow> (Raised e, m1)
           | Inr [t] \<Rightarrow>
               (case py_index (tape m1) (head_pos m1) of
                  None \<Rightarrow> (Raised IndexError, m1)
                | Some j \<Rightarrow>
                    let m2 = m1\<lparr>tape := (tape m1)[j := new_symbol t]\<rparr> in
                    (case filter (\<lambda>s. name s = new_state t) (states m2) of
                       [ns] \<Rightarrow> (Returned (), move_head (m2\<lparr>current_state := Some ns\<rparr>) (direction t))
                     | _ \<Rightarrow> (Raised (TMError msg_nonexistent), m2)))
           | Inr _ \<Rightarrow> (Raised (TMError msg_no_transition), m1)))"

section \<open>The halting loop: TM.run\<close>

text \<open>
  One iteration per unit of fuel, \<open>range(max_steps)\<close> iterations in all. With \<open>verbose\<close>
  the trace line is built first, and \<open>_config_repr\<close> reads \<open>self.current_state.name\<close>,
  which raises on \<open>None\<close>; the printed text itself is not modelled, nor is the progress bar.
  Falling out of the loop returns Python's \<open>None\<close>, here \<open>Returned None\<close>.
\<close>

fun run_loop :: "nat \<Rightarrow> bool \<Rightarrow> 'a TM \<Rightarrow> bool option outcome \<times> 'a TM" where
  "run_loop 0 verbose m = (Returned None, m)"
| "run_loop (Suc k) verbose m =
     (case current_state m of
        None \<Rightarrow>
          if verbose then (Raised AttributeError, m)
          else if \<not> implicit_reject m then (Raised (TMError msg_missing), m)
          else (Returned (Some False), m)
      | Some cs \<Rightarrow>
          if state_type cs = ACCEPTING then (Returned (Some True), m)
          else if state_type cs = REJECTING then (Returned (Some False), m)
          else (case step m of
                  (Raised e, m') \<Rightarrow> (Raised e, m')
                | (Returned u, m') \<Rightarrow> run_loop k verbose m'))"

definition run :: "'a TM \<Rightarrow> int \<Rightarrow> bool \<Rightarrow> bool option outcome \<times> 'a TM" where
  "run m max_steps verbose = run_loop (nat max_steps) verbose m"

section \<open>Auxiliary notions for the properties\<close>

text \<open>
  One pass through the body of the loop of \<open>run\<close> that neither returns nor raises: the
  current state is present and not halting, and \<open>step\<close> returns. \<open>iterations k m\<close> is the
  machine after \<open>k\<close> such passes, if the first \<open>k\<close> passes are all of this kind.
\<close>

definition loop_body :: "'a TM \<Rightarrow> 'a TM option" where
  "loop_body m =
     (case current_state m of
        None \<Rightarrow> None
      | Some cs \<Rightarrow>
          if state_type cs = ACCEPTING \<or> state_type cs = REJECTING then None
          else (case step m of (Raised e, m') \<Rightarrow> None | (Returned u, m') \<Rightarrow> Some m'))"

fun iterations :: "nat \<Rightarrow> 'a TM \<Rightarrow> 'a TM option" where
  "iterations 0 m = Some m"
| "iterations (Suc k) m = (case loop_body m of None \<Rightarrow> None | Some m' \<Rightarrow> iterations k m')"

text \<open>
  What the loop of \<open>run\<close> looks for at the start of an iteration: an ACCEPTING current
  state, for which it returns \<open>True\<close>, and a REJECTING one, or a missing one under
  \<open>implicit_reject\<close> (and no trace), for which it returns \<open>False\<close>.
\<close>

definition accepting :: "'a TM \<Rightarrow> bool" where
  "accepting m =
     (case current_state m of None \<Rightarrow> False | Some cs \<Rightarrow> state_type cs = ACCEPTING)"

definition rejecting :: "bool \<Rightarrow> 'a TM \<Rightarrow> bool" where
  "rejecting v m =
     (case current_state m of
        None \<Rightarrow> implicit_reject m \<and> \<not> v
      | Some cs \<Rightarrow> state_type cs = REJECTING)"

text \<open>
  The machines a caller obtains through the constructor, \<open>step\<close> and \<open>run\<close> alone. A
  call that raises leaves the object with the mutations made so far, and the caller may
  go on using it.
\<close>

inductive reachable :: "'a TM \<Rightarrow> bool" where
  constructed: "TM_init sts tp es ir = Inr m \<Longrightarrow> reachable m"
| stepped: "reachable m \<Longrightarrow> reachable (snd (step m))"
| ran: "reachable m \<Longrightarrow> reachable (snd (run m n v))"

definition has_current :: "'a TM \<Rightarrow> bool" where
  "has_current m = (case current_state m of None \<Rightarrow> False | Some cs \<Rightarrow> cs \<in> set (states m))"

section \<open>The machines of test_tm.py and Example.py\<close>

text \<open>
  The states the tests build: \<open>TMState('S', START)\<close> with the transitions of each test,
  \<open>TMState('A', ACCEPTING)\<close> and \<open>TMState('R', REJECTING)\<close>.
\<close>

definition state_S :: "string TMState" where
  "state_S = \<lparr>name = ''S'', state_type = START, transitions = []\<rparr>"

definition state_A :: "string TMState" where
  "state_A = \<lparr>name = ''A'', state_type = ACCEPTING, transitions = []\<rparr>"

definition state_R :: "string TMState" where
  "state_R = \<lparr>name = ''R'', state_type = REJECTING, transitions = []\<rparr>"

definition start_accept :: "string TMState" where
  "start_accept = add_transition state_S ''_'' ''A'' ''_'' RIGHT"

definition start_two :: "string TMState" where
  "start_two = add_transition (add_transition state_S ''_'' ''A'' ''_'' RIGHT)
                 ''_'' ''R'' ''_'' RIGHT"

definition start_dangling :: "string TMState" where
  "start_dangling = add_transition state_S ''_'' ''X'' ''_'' RIGHT"

definition start_left :: "string TMState" where
  "start_left = add_transition state_S ''_'' ''S'' ''0'' LEFT"

text \<open>A start state that walks right over \<open>x\<close> and turns left on the first empty cell.\<close>

definition start_turn :: "string TMState" where
  "start_turn = add_transition (add_transition state_S ''x'' ''S'' ''x'' RIGHT)
                  ''_'' ''S'' ''0'' LEFT"

text \<open>\<open>TM([s, a, r], tp, empty_symbol='_')\<close> as the constructor leaves it.\<close>

definition test_machine :: "string TMState \<Rightarrow> string list \<Rightarrow> string TM" where
  "test_machine s tp =
     \<lparr>empty_symbol = ''_'', tape = tp, states = [s, state_A, state_R],
      implicit_reject = False, head_pos = 0, current_state = Some s,
      accepting_states = [state_A], rejecting_states = [state_R]\<rparr>"

text \<open>The states of Example.py, and its machine (\<open>implicit_reject=True\<close>) on a tape \<open>tp\<close>.\<close>

definition example_start :: "string TMState" where
  "example_start = add_transition \<lparr>name = ''start'', state_type = START, transitions = []\<rparr>
                     ''a'' ''one_a'' ''a'' RIGHT"

definition example_states :: "string TMState list" where
  "example_states =
     [example_start,
      add_transition \<lparr>name = ''one_a'', state_type = NORMAL, transitions = []\<rparr>
        ''b'' ''one_b'' ''b'' RIGHT,
      add_transition
        (add_transition \<lparr>name = ''one_b'', state_type = NORMAL, transitions = []\<rparr>
           ''a'' ''one_b'' ''a'' RIGHT)
        ''_'' ''accept'' ''_'' RIGHT,
      \<lparr>name = ''accept'', state_type = ACCEPTING, transitions = []\<rparr>]"

definition example_machine :: "string list \<Rightarrow> string TM" where
  "example_machine tp =
     \<lparr>empty_symbol = ''_'', tape = tp, states = example_states,
      implicit_reject = True, head_pos = 0, current_state = Some example_start,
      accepting_states = [\<lparr>name = ''accept'', state_type = ACCEPTING, transitions = []\<rparr>],
      rejecting_states = []\<rparr>"

section \<open>Basic facts\<close>

subsection \<open>Messages and indexing\<close>

lemma msgs_distinct:
  "msg_no_transition \<noteq> msg_nonexistent" "msg_no_transition \<noteq> msg_missing" "msg_nonexistent \<noteq> msg_missing"
  "msg_one_start \<noteq> msg_accepting" "msg_one_start \<noteq> msg_rejecting" "msg_accepting \<noteq> msg_rejecting"
  by (simp_all add: msg_no_transition_def msg_nonexistent_def msg_missing_def msg_one_start_def msg_accepting_def msg_rejecting_def)

lemma py_index_less: "py_index xs i = Some j \<Longrightarrow> j < length xs"
  by (auto simp: py_index_def Let_def split: if_splits)



subsection \<open>The phases of step\<close>

lemma extend_tape_fields [simp]:
  "head_pos (extend_tape m) = head_pos m"
  "current_state (extend_tape m) = current_state m"
  "states (extend_tape m) = states m"
  "empty_symbol (extend_tape m) = empty_symbol m"
  "implicit_reject (extend_tape m) = implicit_reject m"
  by (simp_all add: extend_tape_def)

lemma extend_tape_length:
  "length (tape (extend_tape m)) =
     (if int (length (tape m)) \<le> head_pos m then Suc (length (tape m)) else length (tape m))"
  by (simp add: extend_tape_def)

lemma move_head_fields [simp]:
  "current_state (move_head m d) = current_state m"
  "states (move_head m d) = states m"
  "empty_symbol (move_head m d) = empty_symbol m"
  "implicit_reject (move_head m d) = implicit_reject m"
  by (simp_all add: move_head_def)

lemma step_Returned:
  assumes "step m = (Returned u, m')"
  shows "\<exists>cs t j ns. current_state m = Some cs
     \<and> py_index (tape (extend_tape m)) (head_pos m) = Some j
     \<and> filter (\<lambda>t. symbol t = tape (extend_tape m) ! j) (transitions cs) = [t]
     \<and> filter (\<lambda>s. name s = new_state t) (states m) = [ns]
     \<and> m' = move_head ((extend_tape m)\<lparr>tape := (tape (extend_tape m))[j := new_symbol t],
                current_state := Some ns\<rparr>) (direction t)"
  using assms
  by (auto simp: step_def Let_def select_transitions_def py_getitem_def
      split: option.splits sum.splits list.splits if_splits)

lemma step_Raised:
  assumes "step m = (Raised e, m')"
  shows "m' = extend_tape m \<or>
     (\<exists>j b. e = TMError msg_nonexistent \<and> py_index (tape (extend_tape m)) (head_pos m) = Some j \<and>
        m' = (extend_tape m)\<lparr>tape := (tape (extend_tape m))[j := b]\<rparr>)"
  using assms
  by (auto simp: step_def Let_def select_transitions_def py_getitem_def
      split: option.splits sum.splits list.splits if_splits)

lemma step_unfold:
  assumes "current_state m = Some cs"
    and "py_index (tape (extend_tape m)) (head_pos m) = Some j"
  shows "step m =
     (case filter (\<lambda>t. symbol t = tape (extend_tape m) ! j) (transitions cs) of
        [t] \<Rightarrow>
          (case filter (\<lambda>s. name s = new_state t) (states m) of
             [ns] \<Rightarrow> (Returned (),
                move_head ((extend_tape m)\<lparr>tape := (tape (extend_tape m))[j := new_symbol t],
                    current_state := Some ns\<rparr>) (direction t))
           | _ \<Rightarrow> (Raised (TMError msg_nonexistent),
                (extend_tape m)\<lparr>tape := (tape (extend_tape m))[j := new_symbol t]\<rparr>))
      | _ \<Rightarrow> (Raised (TMError msg_no_transition), extend_tape m))"
  using assms
  by (auto simp: step_def Let_def select_transitions_def py_getitem_def
      split: option.splits sum.splits list.splits if_splits)

subsection \<open>The loop of run, one iteration at a time\<close>

lemma run_loop_continue:
  "loop_body m = Some m' \<Longrightarrow> run_loop (Suc k) v m = run_loop k v m'"
  by (auto simp: loop_body_def split: option.splits prod.splits outcome.splits if_splits)

lemma run_loop_halt:
  "loop_body m = None \<Longrightarrow> run_loop (Suc k) v m = run_loop (Suc 0) v m"
  by (auto simp: loop_body_def split: option.splits prod.splits outcome.splits if_splits)

lemma run_loop_halt_not_None:
  "loop_body m = None \<Longrightarrow> fst (run_loop (Suc k) v m) \<noteq> Returned None"
  by (auto simp: loop_body_def split: option.splits prod.splits outcome.splits if_splits)

lemma iterations_stuck:
  "loop_body m = None \<Longrightarrow> iterations k m = (if k = 0 then Some m else None)"
  by (cases k) simp_all

lemma run_loop_iterations:
  "iterations k m = Some m' \<Longrightarrow> run_loop k v m = (Returned None, m')"
proof (induction k arbitrary: m)
  case 0
  then show ?case by simp
next
  case (Suc k)
  from Suc.prems obtain m1 where b: "loop_body m = Some m1" and i: "iterations k m1 = Some m'"
    by (cases "loop_body m") simp_all
  from Suc.IH [OF i] show ?case
    by (simp only: run_loop_continue [OF b])
qed

lemma run_loop_None_iterations:
  "fst (run_loop k v m) = Returned None \<Longrightarrow> iterations k m = Some (snd (run_loop k v m))"
proof (induction k arbitrary: m)
  case 0
  then show ?case by simp
next
  case (Suc k)
  show ?case
  proof (cases "loop_body m")
    case None
    with Suc.prems run_loop_halt_not_None [OF None, of k v] show ?thesis
      by blast
  next
    case (Some m1)
    with Suc.prems have "fst (run_loop k v m1) = Returned None"
      by (simp only: run_loop_continue [OF Some])
    from Suc.IH [OF this] show ?thesis
      by (simp only: run_loop_continue [OF Some] iterations.simps Some option.case)
  qed
qed

lemma run_first_iteration:
  "loop_body m = None \<Longrightarrow> 0 < n \<Longrightarrow> run m n v = run_loop (Suc 0) v m"
proof -
  assume b: "loop_body m = None" and n: "0 < n"
  from n obtain k where "nat n = Suc k" by (cases "nat n") auto
  with run_loop_halt [OF b] show ?thesis by (simp only: run_def)
qed

text \<open>
  What \<open>run\<close> returns: \<open>True\<close> or \<open>False\<close> exactly when the start of one of its
  iterations finds the machine accepting or rejecting. A state entered by the step of
  the last iteration is not looked at.
\<close>

lemma run_loop_one_True:
  "loop_body m = None \<Longrightarrow>
     fst (run_loop (Suc 0) v m) = Returned (Some True) \<longleftrightarrow>
       (\<exists>cs. current_state m = Some cs \<and> state_type cs = ACCEPTING)"
  by (auto simp: loop_body_def split: option.splits prod.splits outcome.splits if_splits)

lemma run_loop_one_False:
  "loop_body m = None \<Longrightarrow>
     fst (run_loop (Suc 0) v m) = Returned (Some False) \<longleftrightarrow>
       (case current_state m of
          None \<Rightarrow> implicit_reject m \<and> \<not> v
        | Some cs \<Rightarrow> state_type cs = REJECTING)"
  by (auto simp: loop_body_def split: option.splits prod.splits outcome.splits if_splits)

lemma loop_body_Some_not_halting:
  "loop_body m = Some m' \<Longrightarrow>
     \<exists>cs. current_state m = Some cs \<and> state_type cs \<noteq> ACCEPTING \<and> state_type cs \<noteq> REJECTING"
  by (auto simp: loop_body_def split: option.splits if_splits)

lemma observed_shift:
  assumes "loop_body m = Some m1" and "\<not> P m"
  shows "(\<exists>k<Suc n. \<exists>m'. iterations k m = Some m' \<and> P m') \<longleftrightarrow>
         (\<exists>k<n. \<exists>m'. iterations k m1 = Some m' \<and> P m')" (is "?L \<longleftrightarrow> ?R")
proof
  assume ?L
  then obtain k m' where k: "k < Suc n" "iterations k m = Some m'" "P m'" by blast
  with assms(2) obtain k' where "k = Suc k'" by (cases k) auto
  with k assms(1) show ?R by auto
next
  assume ?R
  then obtain k m' where k: "k < n" "iterations k m1 = Some m'" "P m'" by blast
  with assms(1) have "Suc k < Suc n" "iterations (Suc k) m = Some m'" by auto
  with k(3) show ?L by blast
qed

lemma observed_stuck:
  assumes "loop_body m = None"
  shows "(\<exists>k<Suc n. \<exists>m'. iterations k m = Some m' \<and> P m') \<longleftrightarrow> P m"
proof -
  have "\<And>k. iterations k m = (if k = 0 then Some m else None)"
    using assms by (rule iterations_stuck)
  then show ?thesis by (auto split: if_splits)
qed

lemma run_loop_True_iff:
  "fst (run_loop n v m) = Returned (Some True) \<longleftrightarrow>
     (\<exists>k<n. \<exists>m'. iterations k m = Some m' \<and> accepting m')"
proof (induction n arbitrary: m)
  case 0
  then show ?case by simp
next
  case (Suc n)
  show ?case
  proof (cases "loop_body m")
    case None
    have "fst (run_loop (Suc n) v m) = Returned (Some True) \<longleftrightarrow> accepting m"
      unfolding run_loop_halt [OF None, of n v] run_loop_one_True [OF None]
      by (simp add: accepting_def split: option.splits)
    then show ?thesis by (simp only: observed_stuck [OF None])
  next
    case (Some m1)
    from loop_body_Some_not_halting [OF Some] have "\<not> accepting m"
      by (auto simp: accepting_def)
    from observed_shift [where P = accepting, OF Some this] Suc.IH [of m1] show ?thesis
      unfolding run_loop_continue [OF Some, of n v] by simp
  qed
qed

lemma run_loop_False_iff:
  "fst (run_loop n v m) = Returned (Some False) \<longleftrightarrow>
     (\<exists>k<n. \<exists>m'. iterations k m = Some m' \<and> rejecting v m')"
proof (induction n arbitrary: m)
  case 0
  then show ?case by simp
next
  case (Suc n)
  show ?case
  proof (cases "loop_body m")
    case None
    have "fst (run_loop (Suc n) v m) = Returned (Some False) \<longleftrightarrow> rejecting v m"
      unfolding run_loop_halt [OF None, of n v] run_loop_one_False [OF None]
      by (simp add: rejecting_def)
    then show ?thesis by (simp only: observed_stuck [OF None])
  next
    case (Some m1)
    from loop_body_Some_not_halting [OF Some] have "\<not> rejecting v m"
      by (auto simp: rejecting_def)
    from observed_shift [where P = "rejecting v", OF Some this] Suc.IH [of m1] show ?thesis
      unfolding run_loop_continue [OF Some, of n v] by simp
  qed
qed

lemma run_result_iff:
  "fst (run m n v) = Returned (Some True) \<longleftrightarrow>
     (\<exists>k<nat n. \<exists>m'. iterations k m = Some m' \<and> accepting m')"
  "fst (run m n v) = Returned (Some False) \<longleftrightarrow>
     (\<exists>k<nat n. \<exists>m'. iterations k m = Some m' \<and> rejecting v m')"
  unfolding run_def by (rule run_loop_True_iff run_loop_False_iff)+

subsection \<open>The current state stays one of the machine's states\<close>

lemma has_current_iff:
  "has_current m \<longleftrightarrow> (\<exists>cs. current_state m = Some cs \<and> cs \<in> set (states m))"
  by (simp add: has_current_def split: option.splits)

lemma step_has_current:
  assumes "has_current m"
  shows "has_current (snd (step m))" and "states (snd (step m)) = states m"
    and "fst (step m) \<noteq> Raised AttributeError"
    and "fst (step m) \<noteq> Raised (TMError msg_missing)"
proof -
  obtain r m' where st: "step m = (r, m')" by (cases "step m")
  have "has_current m' \<and> states m' = states m \<and> r \<noteq> Raised AttributeError
      \<and> r \<noteq> Raised (TMError msg_missing)"
  proof (cases r)
    case (Returned u)
    with st obtain t :: "'a TMTransition" and j and ns :: "'a TMState" where
      ns: "filter (\<lambda>s. name s = new_state t) (states m) = [ns]" and
      m': "m' = move_head ((extend_tape m)\<lparr>tape := (tape (extend_tape m))[j := new_symbol t],
                current_state := Some ns\<rparr>) (direction t)"
      using step_Returned [of m u m'] by blast
    from ns have "ns \<in> set (filter (\<lambda>s. name s = new_state t) (states m))" by simp
    then have "ns \<in> set (states m)" by simp
    with m' Returned show ?thesis by (simp add: has_current_iff)
  next
    case (Raised e)
    from assms obtain cs where cs: "current_state m = Some cs" "cs \<in> set (states m)"
      by (auto simp: has_current_iff)
    from st Raised step_Raised [of m e m'] cs have "has_current m' \<and> states m' = states m"
      by (auto simp: has_current_iff)
    moreover from st Raised cs have "e \<noteq> AttributeError \<and> e \<noteq> TMError msg_missing"
      by (auto simp: step_def Let_def select_transitions_def py_getitem_def
          msgs_distinct msgs_distinct [THEN not_sym]
          split: option.splits sum.splits list.splits if_splits)
    ultimately show ?thesis using Raised by simp
  qed
  with st show "has_current (snd (step m))" and "states (snd (step m)) = states m"
    and "fst (step m) \<noteq> Raised AttributeError"
    and "fst (step m) \<noteq> Raised (TMError msg_missing)" by simp_all
qed

lemma TM_init_has_current:
  assumes "TM_init sts tp es ir = Inr m"
  shows "has_current m"
proof -
  let ?start = "filter (\<lambda>s. state_type s = START) sts"
  from assms have len: "length ?start = 1" and m: "current_state m = Some (hd ?start)"
    and s: "states m = sts"
    by (auto simp: TM_init_def Let_def split: if_splits)
  from len have "?start \<noteq> []" by auto
  then have "hd ?start \<in> set ?start" by (rule hd_in_set)
  then have "hd ?start \<in> set sts" by simp
  with m s show ?thesis by (simp add: has_current_iff)
qed

lemma loop_body_has_current:
  "has_current m \<Longrightarrow> loop_body m = Some m' \<Longrightarrow> has_current m'"
  using step_has_current(1) [of m]
  by (auto simp: loop_body_def split: option.splits prod.splits outcome.splits if_splits)

lemma run_loop_one_has_current:
  assumes "has_current m" and "loop_body m = None"
  shows "snd (run_loop (Suc 0) v m) = snd (step m) \<or> snd (run_loop (Suc 0) v m) = m"
    and "fst (run_loop (Suc 0) v m) \<noteq> Raised AttributeError"
    and "fst (run_loop (Suc 0) v m) \<noteq> Raised (TMError msg_missing)"
    and "fst (run_loop (Suc 0) v m) = Returned (Some False) \<longrightarrow>
          (\<exists>cs. current_state (snd (run_loop (Suc 0) v m)) = Some cs \<and> state_type cs = REJECTING)"
proof -
  from assms(1) obtain cs where cs: "current_state m = Some cs"
    by (auto simp: has_current_iff)
  obtain r m' where st: "step m = (r, m')" by (cases "step m")
  from step_has_current(3,4) [OF assms(1)] st
  have r: "r \<noteq> Raised AttributeError" "r \<noteq> Raised (TMError msg_missing)" by simp_all
  from assms(2) cs st have h: "state_type cs = ACCEPTING \<or> state_type cs = REJECTING \<or>
      (\<exists>e. r = Raised e)"
    by (cases r) (auto simp: loop_body_def split: if_splits)
  from cs st r h
  show "snd (run_loop (Suc 0) v m) = snd (step m) \<or> snd (run_loop (Suc 0) v m) = m"
    and "fst (run_loop (Suc 0) v m) \<noteq> Raised AttributeError"
    and "fst (run_loop (Suc 0) v m) \<noteq> Raised (TMError msg_missing)"
    and "fst (run_loop (Suc 0) v m) = Returned (Some False) \<longrightarrow>
          (\<exists>cs. current_state (snd (run_loop (Suc 0) v m)) = Some cs \<and> state_type cs = REJECTING)"
    by auto
qed

lemma run_loop_has_current:
  "has_current m \<Longrightarrow>
     has_current (snd (run_loop k v m))
     \<and> fst (run_loop k v m) \<noteq> Raised AttributeError
     \<and> fst (run_loop k v m) \<noteq> Raised (TMError msg_missing)
     \<and> (fst (run_loop k v m) = Returned (Some False) \<longrightarrow>
          (\<exists>cs. current_state (snd (run_loop k v m)) = Some cs \<and> state_type cs = REJECTING))"
proof (induction k arbitrary: m)
  case 0
  then show ?case by simp
next
  case (Suc k)
  show ?case
  proof (cases "loop_body m")
    case None
    have eq: "run_loop (Suc k) v m = run_loop (Suc 0) v m"
      by (rule run_loop_halt [OF None])
    from run_loop_one_has_current(1) [OF Suc.prems None, of v] step_has_current(1) [OF Suc.prems]
      Suc.prems
    have "has_current (snd (run_loop (Suc 0) v m))" by (auto simp del: run_loop.simps)
    with run_loop_one_has_current(2-4) [OF Suc.prems None, of v] show ?thesis
      unfolding eq by blast
  next
    case (Some m1)
    have eq: "run_loop (Suc k) v m = run_loop k v m1"
      by (rule run_loop_continue [OF Some])
    from Suc.IH [OF loop_body_has_current [OF Suc.prems Some]] show ?thesis
      unfolding eq .
  qed
qed

subsection \<open>The test machines, evaluated\<close>

lemmas machine_defs =
  test_machine_def state_S_def state_A_def state_R_def start_accept_def start_two_def
  start_dangling_def start_left_def start_turn_def add_transition_def
  example_machine_def example_states_def example_start_def

lemmas step_defs =
  step_def extend_tape_def select_transitions_def py_getitem_def py_index_def
  move_head_def Let_def

lemma TM_init_test_machine:
  "state_type s = START \<Longrightarrow>
     TM_init [s, state_A, state_R] tp ''_'' False = Inr (test_machine s tp)"
  by (simp add: TM_init_def Let_def test_machine_def state_A_def state_R_def)

lemma TM_init_example_machine:
  "TM_init example_states tp ''_'' True = Inr (example_machine tp)"
  by (simp add: TM_init_def Let_def machine_defs)

lemma step_start_left:
  "step (test_machine start_left []) = (Returned (), test_machine start_left [''_'', ''0''])"
  by (simp add: step_defs machine_defs)

lemma step_start_accept:
  "step (test_machine start_accept []) =
     (Returned (), (test_machine start_accept [''_''])
        \<lparr>head_pos := 1, current_state := Some state_A\<rparr>)"
  by (simp add: step_defs machine_defs)

lemma step_start_two:
  "step (test_machine start_two []) =
     (Raised (TMError msg_no_transition), test_machine start_two [''_''])"
  by (simp add: step_defs machine_defs)


lemma step_start_turn:
  "step (test_machine start_turn [''x'']) =
     (Returned (), (test_machine start_turn [''x''])\<lparr>head_pos := 1\<rparr>)"
  "step ((test_machine start_turn [''x''])\<lparr>head_pos := 1\<rparr>) =
     (Returned (), test_machine start_turn [''x'', ''0''])"
  by (simp_all add: step_defs machine_defs)

lemma step_example_b:
  "step (example_machine [''b'']) =
     (Raised (TMError msg_no_transition), example_machine [''b''])"
  by (simp add: step_defs machine_defs)

section \<open>Properties of the construction\<close>

text \<open>
  Claim C3. Construction fails exactly when the number of START states is not 1, or there
  is no ACCEPTING state, or there is no REJECTING state while \<open>implicit_reject\<close> is false.
  The checks run in this order, each raises a \<open>TMError\<close> with a message of its own, and
  otherwise the machine is returned with the head at 0 and the START state current.
\<close>

theorem TM_init_validation:
  "TM_init sts tp es ir =
     (if length (filter (\<lambda>s. state_type s = START) sts) \<noteq> 1 then Inl (TMError msg_one_start)
      else if filter (\<lambda>s. state_type s = ACCEPTING) sts = [] then Inl (TMError msg_accepting)
      else if filter (\<lambda>s. state_type s = REJECTING) sts = [] \<and> \<not> ir
        then Inl (TMError msg_rejecting)
      else Inr \<lparr>empty_symbol = es, tape = tp, states = sts, implicit_reject = ir, head_pos = 0,
             current_state = Some (hd (filter (\<lambda>s. state_type s = START) sts)),
             accepting_states = filter (\<lambda>s. state_type s = ACCEPTING) sts,
             rejecting_states = filter (\<lambda>s. state_type s = REJECTING) sts\<rparr>)
   \<and> (isl (TM_init sts tp es ir) \<longleftrightarrow>
        length (filter (\<lambda>s. state_type s = START) sts) \<noteq> 1
        \<or> length (filter (\<lambda>s. state_type s = ACCEPTING) sts) = 0
        \<or> (length (filter (\<lambda>s. state_type s = REJECTING) sts) = 0 \<and> \<not> ir))
   \<and> msg_one_start \<noteq> msg_accepting \<and> msg_one_start \<noteq> msg_rejecting
   \<and> msg_accepting \<noteq> msg_rejecting"
  by (simp add: TM_init_def Let_def msgs_distinct)

theorem TM_init_validation_witness:
  "TM_init [start_accept, state_A, state_R] [] ''_'' False = Inr (test_machine start_accept [])
   \<and> TM_init [state_A, state_R] ([] :: string list) ''_'' False = Inl (TMError msg_one_start)
   \<and> TM_init [state_S, state_R] ([] :: string list) ''_'' False = Inl (TMError msg_accepting)
   \<and> TM_init [state_S, state_A] ([] :: string list) ''_'' False = Inl (TMError msg_rejecting)
   \<and> isl (TM_init [state_S, state_A] ([] :: string list) ''_'' False)"
  using TM_init_validation [of "[start_accept, state_A, state_R]" "[]" "''_''" False]
    TM_init_validation [of "[state_A, state_R]" "[]" "''_''" False]
    TM_init_validation [of "[state_S, state_R]" "[]" "''_''" False]
    TM_init_validation [of "[state_S, state_A]" "[]" "''_''" False]
  by (simp add: machine_defs)

section \<open>Properties of step\<close>

text \<open>
  Claim C4. From a machine with \<open>0 \<le> head_pos \<le> len(tape)\<close>, a call of \<open>step\<close> that
  returns leaves \<open>0 \<le> head_pos \<le> len(tape)\<close>, and the tape is never shorter after the
  call than before, whether the call returns or raises.
\<close>

theorem step_head_within_tape:
  assumes "0 \<le> head_pos m" and "head_pos m \<le> int (length (tape m))"
  shows "(fst (step m) = Returned () \<longrightarrow>
            0 \<le> head_pos (snd (step m)) \<and>
            head_pos (snd (step m)) \<le> int (length (tape (snd (step m)))))
       \<and> length (tape m) \<le> length (tape (snd (step m)))"
proof (cases "step m")
  case (Pair r m')
  show ?thesis
  proof (cases r)
    case (Returned u)
    with Pair obtain t :: "'a TMTransition" and j and ns :: "'a TMState" where
      j: "py_index (tape (extend_tape m)) (head_pos m) = Some j" and
      m': "m' = move_head ((extend_tape m)\<lparr>tape := (tape (extend_tape m))[j := new_symbol t],
                current_state := Some ns\<rparr>) (direction t)"
      using step_Returned [of m u m'] by blast
    from assms m' py_index_less [OF j] show ?thesis
      unfolding Pair by (auto simp: move_head_def extend_tape_length py_index_def Let_def split: if_splits)
  next
    case (Raised e)
    with Pair have "length (tape m') = length (tape (extend_tape m))"
      using step_Raised [of m e m'] by auto
    with Pair Raised show ?thesis
      by (simp add: extend_tape_length)
  qed
qed

theorem step_head_within_tape_witness:
  "0 \<le> head_pos (test_machine start_left [])
   \<and> head_pos (test_machine start_left []) \<le> int (length (tape (test_machine start_left [])))
   \<and> fst (step (test_machine start_left [])) = Returned ()
   \<and> 0 \<le> head_pos (snd (step (test_machine start_left [])))
   \<and> head_pos (snd (step (test_machine start_left [])))
        \<le> int (length (tape (snd (step (test_machine start_left [])))))
   \<and> length (tape (test_machine start_left []))
        \<le> length (tape (snd (step (test_machine start_left []))))"
proof -
  have h: "0 \<le> head_pos (test_machine start_left [])"
    "head_pos (test_machine start_left []) \<le> int (length (tape (test_machine start_left [])))"
    by (simp_all add: test_machine_def)
  have r: "fst (step (test_machine start_left [])) = Returned ()"
    by (simp add: step_start_left)
  from h r step_head_within_tape [OF h] show ?thesis by blast
qed

text \<open>
  Claim C5, as amended. For a step that returns, with \<open>t\<close> the matched transition: if
  \<open>t\<close> moves LEFT and the head is at 0, one empty cell is put in front of the tape (as
  extended and written by this step) and the head stays at 0, so the tape is one cell
  longer than before the step, and two cells longer when it was empty before; if \<open>t\<close>
  moves LEFT and the head is past 0, the head moves back by one and the tape keeps its
  length, except for the one cell added when the head was at or past the end; if \<open>t\<close>
  moves RIGHT, the head advances by one.
\<close>

theorem step_movement:
  assumes "step m = (Returned (), m')"
    and "current_state m = Some cs"
    and "py_index (tape (extend_tape m)) (head_pos m) = Some j"
    and "filter (\<lambda>t. symbol t = tape (extend_tape m) ! j) (transitions cs) = [t]"
  shows "(direction t = LEFT \<and> head_pos m = 0 \<longrightarrow>
            tape m' = empty_symbol m # (tape (extend_tape m))[j := new_symbol t] \<and>
            head_pos m' = 0 \<and>
            length (tape m') = length (tape m) + (if tape m = [] then 2 else 1))
       \<and> (direction t = LEFT \<and> 0 < head_pos m \<longrightarrow>
            head_pos m' = head_pos m - 1 \<and>
            length (tape m') =
              length (tape m) + (if int (length (tape m)) \<le> head_pos m then 1 else 0))
       \<and> (direction t = RIGHT \<longrightarrow> head_pos m' = head_pos m + 1)"
proof -
  from assms(1) have "fst (step m) = Returned ()" by simp
  then obtain ns where
    m': "step m = (Returned (), move_head ((extend_tape m)\<lparr>tape := (tape (extend_tape m))[j := new_symbol t],
                    current_state := Some ns\<rparr>) (direction t))"
    unfolding step_unfold [OF assms(2,3)] assms(4)
    by (auto split: list.splits)
  with assms(1) have "m' = move_head ((extend_tape m)\<lparr>tape := (tape (extend_tape m))[j := new_symbol t],
                    current_state := Some ns\<rparr>) (direction t)"
    by simp
  then show ?thesis
    by (auto simp: move_head_def extend_tape_length)
qed

theorem step_movement_witness:
  "step (test_machine start_left []) = (Returned (), test_machine start_left [''_'', ''0''])
   \<and> current_state (test_machine start_left []) = Some start_left
   \<and> py_index (tape (extend_tape (test_machine start_left [])))
         (head_pos (test_machine start_left [])) = Some 0
   \<and> filter (\<lambda>t. symbol t = tape (extend_tape (test_machine start_left [])) ! 0)
         (transitions start_left)
       = [\<lparr>symbol = ''_'', new_state = ''S'', new_symbol = ''0'', direction = LEFT\<rparr>]
   \<and> head_pos (test_machine start_left [''_'', ''0'']) = 0
   \<and> length (tape (test_machine start_left [''_'', ''0''])) = 2"
proof -
  have c: "current_state (test_machine start_left []) = Some start_left"
    by (simp add: test_machine_def)
  have j: "py_index (tape (extend_tape (test_machine start_left [])))
         (head_pos (test_machine start_left [])) = Some 0"
    by (simp add: step_defs machine_defs)
  have f: "filter (\<lambda>t. symbol t = tape (extend_tape (test_machine start_left [])) ! 0)
         (transitions start_left)
       = [\<lparr>symbol = ''_'', new_state = ''S'', new_symbol = ''0'', direction = LEFT\<rparr>]"
    by (simp add: step_defs machine_defs)
  have d: "direction \<lparr>symbol = ''_'', new_state = ''S'', new_symbol = ''0'',
      direction = LEFT\<rparr> = LEFT \<and> head_pos (test_machine start_left []) = 0"
    by (simp add: test_machine_def)
  from step_movement [OF step_start_left c j f] d
  have "head_pos (test_machine start_left [''_'', ''0'']) = 0
      \<and> length (tape (test_machine start_left [''_'', ''0''])) = 2"
    by (simp add: step_defs machine_defs)
  with step_start_left c j f show ?thesis by blast
qed

text \<open>
  Claim C5 as stated fails on the tape length. In \<open>test_left_insertion_at_start\<close> the
  step moves LEFT at head 0 on the empty tape and leaves two cells, not one more than
  before. A LEFT move from head 1 at the end of a one-cell tape leaves two cells too,
  where the claim has the length unchanged.
\<close>

theorem step_left_tape_length_counterexample:
  "fst (step (test_machine start_left [])) = Returned ()
   \<and> head_pos (test_machine start_left []) = 0
   \<and> map direction (transitions start_left) = [LEFT]
   \<and> tape (snd (step (test_machine start_left []))) = [''_'', ''0'']
   \<and> length (tape (snd (step (test_machine start_left []))))
        \<noteq> length (tape (test_machine start_left [])) + 1
   \<and> snd (step (test_machine start_turn [''x''])) = (test_machine start_turn [''x''])\<lparr>head_pos := 1\<rparr>
   \<and> fst (step ((test_machine start_turn [''x''])\<lparr>head_pos := 1\<rparr>)) = Returned ()
   \<and> head_pos (snd (step ((test_machine start_turn [''x''])\<lparr>head_pos := 1\<rparr>))) = 0
   \<and> length (tape (snd (step ((test_machine start_turn [''x''])\<lparr>head_pos := 1\<rparr>))))
        \<noteq> length (tape ((test_machine start_turn [''x''])\<lparr>head_pos := 1\<rparr>))"
  by (simp add: step_start_left step_start_turn) (simp add: machine_defs)



text \<open>
  Claim C7. With a current state and a symbol \<open>x\<close> read under the head (after the
  extension of the tape), \<open>step\<close> raises the "No possible transition" error exactly when
  the number of transitions of the current state triggered by \<open>x\<close> is 0 or at least 2.
\<close>

theorem step_no_transition_iff:
  assumes "current_state m = Some cs"
    and "py_getitem (tape (extend_tape m)) (head_pos m) = Some x"
  shows "fst (step m) = Raised (TMError msg_no_transition) \<longleftrightarrow>
           length (filter (\<lambda>t. symbol t = x) (transitions cs)) = 0 \<or>
           2 \<le> length (filter (\<lambda>t. symbol t = x) (transitions cs))"
proof -
  from assms(2) obtain j where
    j: "py_index (tape (extend_tape m)) (head_pos m) = Some j" and
    x: "x = tape (extend_tape m) ! j"
    by (auto simp: py_getitem_def split: option.splits)
  show ?thesis
    unfolding step_unfold [OF assms(1) j] x
    by (auto simp: msgs_distinct msgs_distinct [THEN not_sym] split: list.splits)
qed

theorem step_no_transition_iff_witness:
  "current_state (test_machine start_two []) = Some start_two
   \<and> py_getitem (tape (extend_tape (test_machine start_two [])))
         (head_pos (test_machine start_two [])) = Some ''_''
   \<and> length (filter (\<lambda>t. symbol t = ''_'') (transitions start_two)) = 2
   \<and> fst (step (test_machine start_two [])) = Raised (TMError msg_no_transition)"
proof -
  have c: "current_state (test_machine start_two []) = Some start_two"
    by (simp add: test_machine_def)
  have g: "py_getitem (tape (extend_tape (test_machine start_two [])))
         (head_pos (test_machine start_two [])) = Some ''_''"
    by (simp add: step_defs machine_defs)
  have n: "length (filter (\<lambda>t. symbol t = ''_'') (transitions start_two)) = 2"
    by (simp add: machine_defs)
  from step_no_transition_iff [OF c g] n c g show ?thesis by simp
qed

text \<open>
  Claim C8. When the one matched transition names a target that zero or several states of
  the machine carry, \<open>step\<close> raises the "non-existent state" error; the symbol of the
  transition has then been written to the cell under the head and stays there, while
  the current state and the head position are what they were.
\<close>

theorem step_dangling_target:
  assumes "current_state m = Some cs"
    and "py_index (tape (extend_tape m)) (head_pos m) = Some j"
    and "filter (\<lambda>t. symbol t = tape (extend_tape m) ! j) (transitions cs) = [t]"
    and "length (filter (\<lambda>s. name s = new_state t) (states m)) \<noteq> 1"
  shows "fst (step m) = Raised (TMError msg_nonexistent)
       \<and> tape (snd (step m)) = (tape (extend_tape m))[j := new_symbol t]
       \<and> tape (snd (step m)) ! j = new_symbol t
       \<and> current_state (snd (step m)) = current_state m
       \<and> head_pos (snd (step m)) = head_pos m"
proof -
  have "step m = (Raised (TMError msg_nonexistent),
                (extend_tape m)\<lparr>tape := (tape (extend_tape m))[j := new_symbol t]\<rparr>)"
    unfolding step_unfold [OF assms(1,2)] assms(3) using assms(4)
    by (auto split: list.splits)
  with py_index_less [OF assms(2)] show ?thesis by simp
qed

theorem step_dangling_target_witness:
  "current_state (test_machine start_dangling []) = Some start_dangling
   \<and> py_index (tape (extend_tape (test_machine start_dangling [])))
         (head_pos (test_machine start_dangling [])) = Some 0
   \<and> filter (\<lambda>t. symbol t = tape (extend_tape (test_machine start_dangling [])) ! 0)
         (transitions start_dangling)
       = [\<lparr>symbol = ''_'', new_state = ''X'', new_symbol = ''_'', direction = RIGHT\<rparr>]
   \<and> length (filter (\<lambda>s. name s = ''X'') (states (test_machine start_dangling []))) = 0
   \<and> fst (step (test_machine start_dangling [])) = Raised (TMError msg_nonexistent)
   \<and> tape (snd (step (test_machine start_dangling []))) ! 0 = ''_''
   \<and> current_state (snd (step (test_machine start_dangling []))) = Some start_dangling
   \<and> head_pos (snd (step (test_machine start_dangling []))) = 0"
proof -
  let ?t = "\<lparr>symbol = ''_'', new_state = ''X'', new_symbol = ''_'', direction = RIGHT\<rparr>"
  have c: "current_state (test_machine start_dangling []) = Some start_dangling"
    by (simp add: test_machine_def)
  have j: "py_index (tape (extend_tape (test_machine start_dangling [])))
         (head_pos (test_machine start_dangling [])) = Some 0"
    by (simp add: step_defs machine_defs)
  have f: "filter (\<lambda>t. symbol t = tape (extend_tape (test_machine start_dangling [])) ! 0)
         (transitions start_dangling) = [?t]"
    by (simp add: step_defs machine_defs)
  have n0: "length (filter (\<lambda>s. name s = ''X'') (states (test_machine start_dangling []))) = 0"
    by (simp add: machine_defs)
  then have n: "length (filter (\<lambda>s. name s = new_state ?t)
      (states (test_machine start_dangling []))) \<noteq> 1"
    by simp
  have e: "head_pos (test_machine start_dangling []) = 0" "new_symbol ?t = ''_''"
    by (simp_all add: test_machine_def)
  from step_dangling_target [OF c j f n] c e
  have "fst (step (test_machine start_dangling [])) = Raised (TMError msg_nonexistent)
      \<and> tape (snd (step (test_machine start_dangling []))) ! 0 = ''_''
      \<and> current_state (snd (step (test_machine start_dangling []))) = Some start_dangling
      \<and> head_pos (snd (step (test_machine start_dangling []))) = 0"
    unfolding c e by blast
  with c j f n0 show ?thesis by blast
qed

section \<open>Properties of run\<close>

text \<open>
  Claim C9. When all \<open>max_steps\<close> iterations of the loop pass without a return and
  without a raise, \<open>run\<close> returns \<open>None\<close>, which is neither \<open>True\<close> nor \<open>False\<close>, and the
  machine is the one those iterations leave; \<open>run\<close> returns \<open>None\<close> in no other case. With
  \<open>max_steps\<close> at 0 (or below) it returns \<open>None\<close> at once, whatever the current state.
\<close>

theorem run_exhausted_no_result:
  "(iterations (nat n) m = Some m' \<longrightarrow> run m n v = (Returned None, m'))
   \<and> (fst (run m n v) = Returned None \<longrightarrow> iterations (nat n) m = Some (snd (run m n v)))
   \<and> (n \<le> 0 \<longrightarrow> run m n v = (Returned None, m))
   \<and> Returned None \<noteq> Returned (Some True) \<and> Returned None \<noteq> Returned (Some False)"
  unfolding run_def
  by (intro conjI impI; (erule run_loop_iterations | erule run_loop_None_iterations | simp))

theorem run_exhausted_no_result_witness:
  "iterations (nat 1) (test_machine start_left []) = Some (test_machine start_left [''_'', ''0''])
   \<and> run (test_machine start_left []) 1 False
        = (Returned None, test_machine start_left [''_'', ''0''])
   \<and> run ((test_machine start_accept [''_''])\<lparr>head_pos := 1, current_state := Some state_A\<rparr>)
        0 False
        = (Returned None,
           (test_machine start_accept [''_''])\<lparr>head_pos := 1, current_state := Some state_A\<rparr>)"
proof -
  have i: "iterations (nat 1) (test_machine start_left [])
      = Some (test_machine start_left [''_'', ''0''])"
    by (simp add: loop_body_def step_defs machine_defs)
  from run_exhausted_no_result
    [of 1 "test_machine start_left []" "test_machine start_left [''_'', ''0'']" False]
    run_exhausted_no_result
    [of 0 "(test_machine start_accept [''_''])\<lparr>head_pos := 1, current_state := Some state_A\<rparr>"
      "test_machine start_accept []" False] i
  show ?thesis by blast
qed

text \<open>
  Claim C10. After a successful construction, and after every \<open>step\<close> that returns, the
  machine has a current state and it is one of the machine's states. Hence a machine
  obtained through the constructor, \<open>step\<close> and \<open>run\<close> alone (whatever their outcomes)
  always has one, and \<open>run\<close> on it never takes a branch for a missing current state: it
  raises neither the "missing transitions" error nor the attribute error of the trace,
  and it returns \<open>False\<close> only in a REJECTING state.
\<close>

theorem current_state_never_null:
  "(TM_init sts tp es ir = Inr (m0 :: 'a TM) \<longrightarrow>
      (\<exists>cs. current_state m0 = Some cs \<and> cs \<in> set (states m0)))
   \<and> (fst (step (m1 :: 'a TM)) = Returned () \<longrightarrow>
      (\<exists>cs. current_state (snd (step m1)) = Some cs \<and> cs \<in> set (states (snd (step m1)))))
   \<and> (reachable (m :: 'a TM) \<longrightarrow>
      (\<exists>cs. current_state m = Some cs \<and> cs \<in> set (states m))
      \<and> fst (run m n v) \<noteq> Raised (TMError msg_missing)
      \<and> fst (run m n v) \<noteq> Raised AttributeError
      \<and> (fst (run m n v) = Returned (Some False) \<longrightarrow>
            (\<exists>cs. current_state (snd (run m n v)) = Some cs \<and> state_type cs = REJECTING)))"
proof (intro conjI impI)
  assume "TM_init sts tp es ir = Inr m0"
  then have "has_current m0" by (rule TM_init_has_current)
  then show "\<exists>cs. current_state m0 = Some cs \<and> cs \<in> set (states m0)"
    by (simp add: has_current_iff)
next
  assume "fst (step m1) = Returned ()"
  then have "step m1 = (Returned (), snd (step m1))" by (metis prod.collapse)
  then obtain t :: "'a TMTransition" and j and ns :: "'a TMState" where
    ns: "filter (\<lambda>s. name s = new_state t) (states m1) = [ns]" and
    m': "snd (step m1) = move_head ((extend_tape m1)\<lparr>tape := (tape (extend_tape m1))[j := new_symbol t],
              current_state := Some ns\<rparr>) (direction t)"
    using step_Returned [of m1 "()" "snd (step m1)"] by blast
  from ns have "ns \<in> set (filter (\<lambda>s. name s = new_state t) (states m1))" by simp
  then have "ns \<in> set (states m1)" by simp
  then show "\<exists>cs. current_state (snd (step m1)) = Some cs \<and> cs \<in> set (states (snd (step m1)))"
    unfolding m' by simp
next
  assume "reachable m"
  then have hc: "has_current m"
  proof induction
    case (constructed sts tp es ir m)
    then show ?case by (rule TM_init_has_current)
  next
    case (stepped m)
    from stepped.IH show ?case by (rule step_has_current(1))
  next
    case (ran m n v)
    from run_loop_has_current [OF ran.IH] show ?case by (simp add: run_def)
  qed
  from hc show "\<exists>cs. current_state m = Some cs \<and> cs \<in> set (states m)"
    by (simp add: has_current_iff)
  from run_loop_has_current [OF hc, of "nat n" v]
  show "fst (run m n v) \<noteq> Raised (TMError msg_missing)"
    and "fst (run m n v) \<noteq> Raised AttributeError"
    and "fst (run m n v) = Returned (Some False) \<Longrightarrow>
      \<exists>cs. current_state (snd (run m n v)) = Some cs \<and> state_type cs = REJECTING"
    by (simp_all add: run_def)
qed

theorem current_state_never_null_witness:
  "TM_init [start_accept, state_A, state_R] [] ''_'' False = Inr (test_machine start_accept [])
   \<and> current_state (test_machine start_accept []) = Some start_accept
   \<and> fst (step (test_machine start_accept [])) = Returned ()
   \<and> current_state (snd (step (test_machine start_accept []))) = Some state_A
   \<and> state_A \<in> set (states (snd (step (test_machine start_accept []))))
   \<and> reachable (snd (step (test_machine start_accept [])))
   \<and> fst (run (snd (step (test_machine start_accept []))) 1000 False)
        \<noteq> Raised (TMError msg_missing)
   \<and> fst (run (snd (step (test_machine start_accept []))) 1000 False) \<noteq> Raised AttributeError"
proof -
  have "state_type start_accept = START" by (simp add: machine_defs)
  then have i: "TM_init [start_accept, state_A, state_R] [] ''_'' False
      = Inr (test_machine start_accept [])"
    by (rule TM_init_test_machine)
  then have "reachable (test_machine start_accept [])"
    by (rule reachable.constructed)
  then have r: "reachable (snd (step (test_machine start_accept [])))"
    by (rule reachable.stepped)
  have s: "fst (step (test_machine start_accept [])) = Returned ()
      \<and> current_state (test_machine start_accept []) = Some start_accept
      \<and> current_state (snd (step (test_machine start_accept []))) = Some state_A
      \<and> state_A \<in> set (states (snd (step (test_machine start_accept []))))"
    unfolding step_start_accept by (simp add: test_machine_def)
  from current_state_never_null
    [of "[start_accept, state_A, state_R]" "[]" "''_''" False "test_machine start_accept []"
      "test_machine start_accept []" "snd (step (test_machine start_accept []))" 1000 False]
    i r s
  show ?thesis by blast
qed

section \<open>Where the code departs from its documentation\<close>

text \<open>
  Claim C1. The docstring of the constructor promises that with \<open>implicit_reject\<close> the
  machine rejects when it reaches a state without a transition for the symbol read. The
  machine of Example.py (built with \<open>implicit_reject=True\<close>) on the tape \<open>['b']\<close> has no
  transition on \<open>b\<close> in its start state: \<open>step\<close> raises the "No possible transition"
  error, and \<open>run\<close> passes it on instead of returning \<open>False\<close>.
\<close>

theorem implicit_reject_run_raises:
  "TM_init example_states [''b''] ''_'' True = Inr (example_machine [''b''])
   \<and> implicit_reject (example_machine [''b''])
   \<and> current_state (example_machine [''b'']) = Some example_start
   \<and> filter (\<lambda>t. symbol t = ''b'') (transitions example_start) = []
   \<and> run (example_machine [''b'']) 1000 False
        = (Raised (TMError msg_no_transition), example_machine [''b''])
   \<and> fst (run (example_machine [''b'']) 1000 False) \<noteq> Returned (Some False)"
proof -
  have b: "loop_body (example_machine [''b'']) = None"
    by (simp add: loop_body_def step_defs machine_defs)
  have "run (example_machine [''b'']) 1000 False = run_loop (Suc 0) False (example_machine [''b''])"
    by (rule run_first_iteration [OF b]) simp
  also have "\<dots> = (Raised (TMError msg_no_transition), example_machine [''b''])"
    by (simp add: step_defs machine_defs)
  finally have r: "run (example_machine [''b'']) 1000 False
      = (Raised (TMError msg_no_transition), example_machine [''b''])" .
  have "implicit_reject (example_machine [''b''])
      \<and> current_state (example_machine [''b'']) = Some example_start
      \<and> filter (\<lambda>t. symbol t = ''b'') (transitions example_start) = []"
    by (simp add: machine_defs)
  with r TM_init_example_machine [of "[''b'']"] show ?thesis by simp
qed

text \<open>
  Claim C2. \<open>run\<close> is documented to return \<open>True\<close> if the machine accepts. The machine of
  \<open>test_run_accept_and_reject\<close> enters its ACCEPTING state by its first step; with
  \<open>max_steps = 1\<close> that step is made in the last iteration, the loop ends without looking
  at the state again, and \<open>run\<close> returns \<open>None\<close> with the machine in the ACCEPTING state.
  One more iteration returns \<open>True\<close>. (Lemma \<open>run_result_iff\<close> has the general picture:
  only the states seen at the start of an iteration count.)
\<close>

theorem run_accept_on_last_step_no_result:
  "fst (run (test_machine start_accept []) 1 False) = Returned None
   \<and> current_state (snd (run (test_machine start_accept []) 1 False)) = Some state_A
   \<and> state_type state_A = ACCEPTING
   \<and> fst (run (test_machine start_accept []) 2 False) = Returned (Some True)"
proof -
  have one: "nat 1 = Suc 0" and two: "nat 2 = Suc (Suc 0)" by simp_all
  have b: "loop_body (test_machine start_accept [])
      = Some ((test_machine start_accept [''_''])\<lparr>head_pos := 1, current_state := Some state_A\<rparr>)"
    by (simp add: loop_body_def step_defs machine_defs)
  show ?thesis
    unfolding run_def one two run_loop_continue [OF b]
    by (simp add: machine_defs)
qed

end
